theory Spec2Isabelle
  imports Complex_Main "HOL-Library.AList"
begin

section \<open>Python values shared by both applications\<close>

text \<open>
  The repository holds two Streamlit applications, \<^verbatim>\<open>app_v3.py\<close> and
  \<^verbatim>\<open>app.py\<close>. Both keep the allocation in the dictionary
  \<^verbatim>\<open>st.session_state.weights\<close> (ticker to weight in percent).

  A Python \<^verbatim>\<open>dict\<close> keeps insertion order, so it is an association list whose
  keys are distinct: \<^verbatim>\<open>d[k] = v\<close> is \<open>AList.update\<close> (in place when the key
  exists, appended otherwise), \<^verbatim>\<open>del d[k]\<close> is \<open>AList.delete\<close>,
  \<^verbatim>\<open>k in d\<close> is membership in the keys, \<^verbatim>\<open>d.values()\<close> the second
  components. Python's \<^verbatim>\<open>float\<close> is modelled by \<open>real\<close>: arithmetic is exact,
  rounding is not part of the model. Strings are ASCII.
\<close>

type_synonym weights_dict = "(string \<times> real) list"

datatype py_error = KeyError | ZeroDivisionError

datatype ui_msg = StError string | StWarningTotal real

definition keys :: "weights_dict \<Rightarrow> string list" where
  "keys d = map fst d"

definition total_weight :: "weights_dict \<Rightarrow> real" where
  "total_weight d = sum_list (map snd d)"

text \<open>The dict comprehension \<^verbatim>\<open>{t: w for t in ts}\<close>: later duplicates of a
  key overwrite the entry in place.\<close>

definition dict_comprehension :: "string list \<Rightarrow> real \<Rightarrow> weights_dict" where
  "dict_comprehension ts w = fold (\<lambda>t d. AList.update t w d) ts []"

text \<open>The loop \<^verbatim>\<open>for ticker in weights: weights[ticker] = weights[ticker] / total * 100\<close>.\<close>

definition rescale :: "real \<Rightarrow> weights_dict \<Rightarrow> weights_dict" where
  "rescale tot d = map (\<lambda>(t, w). (t, w / tot * 100)) d"

subsection \<open>\<^verbatim>\<open>str.strip\<close>, \<^verbatim>\<open>str.upper\<close> and the ticker pattern\<close>

text \<open>ASCII white space as \<^verbatim>\<open>str.isspace\<close> sees it: space, tab, line feed,
  vertical tab, form feed, carriage return and the separators 0x1C to 0x1F.\<close>

definition py_isspace :: "char \<Rightarrow> bool" where
  "py_isspace c = (c \<in> set [CHR 0x20, CHR 0x09, CHR 0x0A, CHR 0x0B, CHR 0x0C, CHR 0x0D,
                              CHR 0x1C, CHR 0x1D, CHR 0x1E, CHR 0x1F])"

definition strip :: "string \<Rightarrow> string" where
  "strip s = rev (dropWhile py_isspace (rev (dropWhile py_isspace s)))"

definition upper_char :: "char \<Rightarrow> char" where
  "upper_char c =
     (case map_of (zip ''abcdefghijklmnopqrstuvwxyz'' ''ABCDEFGHIJKLMNOPQRSTUVWXYZ'') c of
        Some u \<Rightarrow> u
      | None \<Rightarrow> c)"

definition upper :: "string \<Rightarrow> string" where
  "upper s = map upper_char s"

definition is_upper_letter :: "char \<Rightarrow> bool" where
  "is_upper_letter c = (c \<in> set ''ABCDEFGHIJKLMNOPQRSTUVWXYZ'')"

text \<open>\<^verbatim>\<open>re.match(r'^[A-Z]{1,5}$', ticker)\<close>, read as a truth value. In Python
  \<^verbatim>\<open>$\<close> also matches just before a line feed that ends the string.\<close>

definition validate_ticker :: "string \<Rightarrow> bool" where
  "validate_ticker ticker =
     (let core = (if ticker \<noteq> [] \<and> last ticker = CHR 0x0A then butlast ticker else ticker)
      in 1 \<le> length core \<and> length core \<le> 5 \<and> list_all is_upper_letter core)"

section \<open>\<^verbatim>\<open>app_v3.py\<close>: the handlers\<close>

record slot_data =
  enabled :: bool
  ticker_value :: string
  valid :: bool

text \<open>The part of \<^verbatim>\<open>st.session_state\<close> the handlers read and write: the widget
  values under the keys \<^verbatim>\<open>ticker_i\<close> and \<^verbatim>\<open>enable_i\<close>, and the three
  entries the script initialises.\<close>

record session_state =
  ticker_widget :: "nat \<rightharpoonup> string"
  enable_widget :: "nat \<rightharpoonup> bool"
  ticker_data :: "nat \<rightharpoonup> slot_data"
  weights :: weights_dict
  valid_tickers :: "string list"

definition normalize_weights :: "session_state \<Rightarrow> session_state" where
  "normalize_weights s =
     (let tot = total_weight (weights s) in
      if tot = 0 then
        (let equal_weight = (if valid_tickers s \<noteq> []
                             then 100 / real (length (valid_tickers s)) else 0)
         in s\<lparr>weights := dict_comprehension (valid_tickers s) equal_weight\<rparr>)
      else s\<lparr>weights := rescale tot (weights s)\<rparr>)"

text \<open>\<^verbatim>\<open>st.session_state.ticker_data.get(index, {}).get('value', '')\<close>.\<close>

definition stored_value :: "session_state \<Rightarrow> nat \<Rightarrow> string" where
  "stored_value s index = (case ticker_data s index of None \<Rightarrow> [] | Some d \<Rightarrow> ticker_value d)"

text \<open>The block under \<^verbatim>\<open># Clear invalid data when ticker changes\<close>: it removes the
  ticker just read from the widget, not the one stored for the slot.\<close>

definition clear_ticker :: "string \<Rightarrow> session_state \<Rightarrow> session_state" where
  "clear_ticker ticker s =
     (let s1 = (if ticker \<in> set (valid_tickers s)
                then s\<lparr>valid_tickers := remove1 ticker (valid_tickers s)\<rparr> else s)
      in if ticker \<in> set (keys (weights s1))
         then s1\<lparr>weights := AList.delete ticker (weights s1)\<rparr> else s1)"

text \<open>The two guarded insertions under \<^verbatim>\<open>if validate_ticker(ticker):\<close>.\<close>

definition add_ticker :: "string \<Rightarrow> session_state \<Rightarrow> session_state" where
  "add_ticker ticker s =
     (let s1 = (if ticker \<notin> set (valid_tickers s)
                then s\<lparr>valid_tickers := valid_tickers s @ [ticker]\<rparr> else s)
      in if ticker \<notin> set (keys (weights s1))
         then s1\<lparr>weights := AList.update ticker 0 (weights s1)\<rparr> else s1)"

text \<open>\<^verbatim>\<open>handle_ticker_change(index)\<close>. Reading a widget key that does not exist raises
  \<^verbatim>\<open>KeyError\<close>; otherwise the call returns the messages it displayed and the new
  session state.\<close>

definition handle_ticker_change :: "nat \<Rightarrow> session_state \<Rightarrow> py_error + (ui_msg list \<times> session_state)" where
  "handle_ticker_change index s =
     (case ticker_widget s index of
        None \<Rightarrow> Inl KeyError
      | Some raw \<Rightarrow>
         (case enable_widget s index of
            None \<Rightarrow> Inl KeyError
          | Some en \<Rightarrow>
             (let ticker = upper (strip raw);
                  s1 = (if ticker \<noteq> stored_value s index then clear_ticker ticker s else s);
                  ok = validate_ticker ticker;
                  s2 = (if en \<and> ticker \<noteq> [] \<and> ok then add_ticker ticker s1 else s1);
                  msgs = (if en \<and> ticker \<noteq> [] \<and> \<not> ok
                          then [StError (''Invalid ticker format: '' @ ticker)] else []);
                  s3 = s2\<lparr>ticker_data := (ticker_data s2)(index \<mapsto>
                          \<lparr>enabled = en, ticker_value = ticker,
                           valid = (if en then ok else False)\<rparr>)\<rparr>
              in Inr (msgs, normalize_weights s3))))"

subsection \<open>The user-interface events of \<^verbatim>\<open>app_v3.py\<close>\<close>

text \<open>
  The check box and the text input of row \<open>i\<close> both register
  \<^verbatim>\<open>on_change=handle_ticker_change, args=(i,)\<close>: Streamlit stores the widget's new
  value under its key and then calls the handler. The weight input registers
  \<^verbatim>\<open>on_change=normalize_weights\<close>. These are the three events of the allocation
  manager (setSlotEnabled, setSlotText and the weight edit).
\<close>

definition setSlotEnabled :: "nat \<Rightarrow> bool \<Rightarrow> session_state \<Rightarrow> py_error + (ui_msg list \<times> session_state)" where
  "setSlotEnabled index en s =
     handle_ticker_change index (s\<lparr>enable_widget := (enable_widget s)(index \<mapsto> en)\<rparr>)"

definition setSlotText :: "nat \<Rightarrow> string \<Rightarrow> session_state \<Rightarrow> py_error + (ui_msg list \<times> session_state)" where
  "setSlotText index raw s =
     handle_ticker_change index (s\<lparr>ticker_widget := (ticker_widget s)(index \<mapsto> raw)\<rparr>)"

datatype event = SlotEnabledChanged nat bool | SlotTextChanged nat string | WeightChanged

fun step :: "event \<Rightarrow> session_state \<Rightarrow> py_error + (ui_msg list \<times> session_state)" where
  "step (SlotEnabledChanged index en) s = setSlotEnabled index en s"
| "step (SlotTextChanged index raw) s = setSlotText index raw s"
| "step WeightChanged s = Inr ([], normalize_weights s)"

fun run :: "event list \<Rightarrow> session_state \<Rightarrow> py_error + session_state" where
  "run [] s = Inr s"
| "run (e # es) s = (case step e s of Inl err \<Rightarrow> Inl err | Inr (msgs, s') \<Rightarrow> run es s')"

text \<open>The session after the first script run: five rows, every check box off, every
  text input empty, and the three entries as the script initialises them.\<close>

definition initial_state :: session_state where
  "initial_state =
     \<lparr>ticker_widget = (\<lambda>i. if i < 5 then Some [] else None),
      enable_widget = (\<lambda>i. if i < 5 then Some False else None),
      ticker_data = Map.empty,
      weights = [],
      valid_tickers = []\<rparr>"

text \<open>Row \<open>i\<close> is enabled and its committed ticker is \<open>k\<close>.\<close>

definition slot_holds :: "session_state \<Rightarrow> nat \<Rightarrow> string \<Rightarrow> bool" where
  "slot_holds s i k =
     (case ticker_data s i of None \<Rightarrow> False
      | Some d \<Rightarrow> enabled d \<and> valid d \<and> ticker_value d = k)"

text \<open>The registry and the weight table agree: the valid-ticker list has no duplicate
  and lists exactly the keys of the weights, in the same order.\<close>

definition registry_consistent :: "session_state \<Rightarrow> bool" where
  "registry_consistent s = (distinct (valid_tickers s) \<and> keys (weights s) = valid_tickers s)"

definition tickers_valid :: "session_state \<Rightarrow> bool" where
  "tickers_valid s = list_all validate_ticker (valid_tickers s)"

definition normalized :: "weights_dict \<Rightarrow> bool" where
  "normalized d = (d = [] \<or> total_weight d = 100)"

section \<open>\<^verbatim>\<open>app.py\<close>: the script\<close>

text \<open>
  \<^verbatim>\<open>app.py\<close> has no handler for the rows: every interaction reruns the script, which
  reads the widgets, rebuilds \<^verbatim>\<open>selected_tickers\<close>, resets the weights when the
  selection changed and then balances them. Its session entries are named as in the
  source with the suffix \<open>_v1\<close>.
\<close>

record v1_state =
  weights_v1 :: weights_dict
  tickers_v1 :: "string list"
  prev_tickers_v1 :: "string list option"

definition initial_v1 :: v1_state where
  "initial_v1 = \<lparr>weights_v1 = [], tickers_v1 = replicate 5 [], prev_tickers_v1 = None\<rparr>"

text \<open>One row of the loop \<^verbatim>\<open>for i in range(5)\<close>; \<open>en\<close> and \<open>raw\<close> are what the
  check box and the text input of the row return in this run.\<close>

definition ticker_row :: "nat \<Rightarrow> bool \<times> string \<Rightarrow> string list \<times> v1_state \<Rightarrow> string list \<times> v1_state" where
  "ticker_row i w acc =
     (case w of (en, raw) \<Rightarrow>
      (case acc of (selected_tickers, s) \<Rightarrow>
        if en then
          (let ticker = upper (strip raw) in
           ((if ticker \<noteq> [] then selected_tickers @ [ticker] else selected_tickers),
            s\<lparr>tickers_v1 := (tickers_v1 s)[i := ticker]\<rparr>))
        else (selected_tickers, s)))"

definition ticker_rows :: "(nat \<Rightarrow> bool \<times> string) \<Rightarrow> v1_state \<Rightarrow> string list \<times> v1_state" where
  "ticker_rows widgets s = fold (\<lambda>i acc. ticker_row i (widgets i) acc) [0..<5] ([], s)"

text \<open>The block under \<^verbatim>\<open># Initialize or reset weights when tickers change\<close>.\<close>

definition reset_weights :: "string list \<Rightarrow> v1_state \<Rightarrow> v1_state" where
  "reset_weights selected_tickers s =
     (if prev_tickers_v1 s \<noteq> Some selected_tickers then
        (let num_selected = length selected_tickers in
         s\<lparr>weights_v1 := (if num_selected > 0
                           then dict_comprehension selected_tickers (100 / real num_selected)
                           else []),
           prev_tickers_v1 := Some selected_tickers\<rparr>)
      else s)"

text \<open>\<^verbatim>\<open>update_weight_from_text(ticker)\<close>. Its argument \<open>r\<close> is the outcome of
  \<^verbatim>\<open>float(st.session_state[f"text_{ticker}"])\<close>: the number, or an exception (a
  missing key, text that is no number), which the bare \<^verbatim>\<open>except:\<close> catches. The
  assignments to the widget keys \<^verbatim>\<open>text_...\<close> and \<^verbatim>\<open>slider_...\<close> are display
  copies and not part of the state modelled here.\<close>

datatype float_result = Parsed real | Raised

definition update_weight_from_text :: "float_result \<Rightarrow> string \<Rightarrow> v1_state \<Rightarrow> v1_state" where
  "update_weight_from_text r ticker s =
     (case r of
        Parsed v \<Rightarrow>
          (let v' = (if v < 0 then 0 else if v > 100 then 100 else v)
           in s\<lparr>weights_v1 := AList.update ticker v' (weights_v1 s)\<rparr>)
      | Raised \<Rightarrow> s)"

text \<open>The loop of the block under \<^verbatim>\<open># Auto-balance weights\<close>:
  \<^verbatim>\<open>weights[ticker] = (weights[ticker] / total_weight) * 100\<close> for every selected
  ticker, with \<open>tot\<close> computed once before the loop.\<close>

fun balance_loop :: "real \<Rightarrow> string list \<Rightarrow> weights_dict \<Rightarrow> py_error + weights_dict" where
  "balance_loop tot [] d = Inr d"
| "balance_loop tot (ticker # rest) d =
     (case map_of d ticker of
        None \<Rightarrow> Inl KeyError
      | Some w \<Rightarrow>
          if tot = 0 then Inl ZeroDivisionError
          else balance_loop tot rest (AList.update ticker (w / tot * 100) d))"

definition auto_balance :: "string list \<Rightarrow> v1_state \<Rightarrow> py_error + (ui_msg list \<times> v1_state)" where
  "auto_balance selected_tickers s =
     (if selected_tickers \<noteq> [] then
        (let tot = total_weight (weights_v1 s) in
         if \<bar>tot - 100\<bar> > 1 / 10 then
           (case balance_loop tot selected_tickers (weights_v1 s) of
              Inl err \<Rightarrow> Inl err
            | Inr d \<Rightarrow> Inr ([StWarningTotal tot], s\<lparr>weights_v1 := d\<rparr>))
         else Inr ([], s))
      else Inr ([], s))"

text \<open>One run of the script of \<^verbatim>\<open>app.py\<close> as far as the allocation goes.\<close>

definition script_run :: "(nat \<Rightarrow> bool \<times> string) \<Rightarrow> v1_state \<Rightarrow> py_error + (ui_msg list \<times> v1_state)" where
  "script_run widgets s =
     (case ticker_rows widgets s of
        (selected_tickers, s1) \<Rightarrow> auto_balance selected_tickers (reset_weights selected_tickers s1))"

section \<open>Example states\<close>

text \<open>Three entries of weight zero, registered in the valid-ticker list.\<close>

definition zero_abc :: session_state where
  "zero_abc =
     \<lparr>ticker_widget = (\<lambda>i. if i < 5 then Some [] else None),
      enable_widget = (\<lambda>i. if i < 5 then Some False else None),
      ticker_data = Map.empty,
      weights = [(''A'', 0), (''B'', 0), (''C'', 0)],
      valid_tickers = [''A'', ''B'', ''C'']\<rparr>"

text \<open>Two arguments of \<open>normalize_weights\<close> whose weights hold a key that the
  valid-ticker list does not: one with a total of 50, one with a total of 0.\<close>

definition stale_state :: session_state where
  "stale_state =
     \<lparr>ticker_widget = (\<lambda>i. if i < 5 then Some [] else None),
      enable_widget = (\<lambda>i. if i < 5 then Some False else None),
      ticker_data = Map.empty,
      weights = [(''AAPL'', 30), (''MSFT'', 20)],
      valid_tickers = [''MSFT'']\<rparr>"

definition zero_state :: session_state where
  "zero_state =
     \<lparr>ticker_widget = (\<lambda>i. if i < 5 then Some [] else None),
      enable_widget = (\<lambda>i. if i < 5 then Some False else None),
      ticker_data = Map.empty,
      weights = [(''AAPL'', 0), (''MSFT'', 0)],
      valid_tickers = [''MSFT'']\<rparr>"

text \<open>Rows 0 and 1 enabled, holding AAPL at 60 and MSFT at 40.\<close>

definition sixty_forty :: session_state where
  "sixty_forty =
     \<lparr>ticker_widget = (\<lambda>i. if i = 0 then Some ''AAPL'' else if i = 1 then Some ''MSFT''
                           else if i < 5 then Some [] else None),
      enable_widget = (\<lambda>i. if i < 2 then Some True else if i < 5 then Some False else None),
      ticker_data = [0 \<mapsto> \<lparr>enabled = True, ticker_value = ''AAPL'', valid = True\<rparr>,
                     1 \<mapsto> \<lparr>enabled = True, ticker_value = ''MSFT'', valid = True\<rparr>],
      weights = [(''AAPL'', 60), (''MSFT'', 40)],
      valid_tickers = [''AAPL'', ''MSFT'']\<rparr>"

text \<open>The initial session with the check box of row 0 ticked.\<close>

definition slot0_enabled :: session_state where
  "slot0_enabled = initial_state\<lparr>enable_widget := (enable_widget initial_state)(0 \<mapsto> True)\<rparr>"

text \<open>Row 0 enabled and holding the committed ticker ABCDE.\<close>

definition abcde_committed :: session_state where
  "abcde_committed =
     \<lparr>ticker_widget = (ticker_widget initial_state)(0 \<mapsto> ''abcde''),
      enable_widget = (enable_widget initial_state)(0 \<mapsto> True),
      ticker_data = [0 \<mapsto> \<lparr>enabled = True, ticker_value = ''ABCDE'', valid = True\<rparr>],
      weights = [(''ABCDE'', 100)],
      valid_tickers = [''ABCDE'']\<rparr>"

text \<open>Row 1 holds MSFT at 100; row 0 is enabled and empty.\<close>

definition msft_only :: session_state where
  "msft_only =
     \<lparr>ticker_widget = (\<lambda>i. if i = 1 then Some ''MSFT'' else if i < 5 then Some [] else None),
      enable_widget = (\<lambda>i. if i < 2 then Some True else if i < 5 then Some False else None),
      ticker_data = [1 \<mapsto> \<lparr>enabled = True, ticker_value = ''MSFT'', valid = True\<rparr>],
      weights = [(''MSFT'', 100)],
      valid_tickers = [''MSFT'']\<rparr>"

text \<open>\<open>sixty_forty\<close> with row 2 enabled and still empty.\<close>

definition sixty_forty_open :: session_state where
  "sixty_forty_open =
     sixty_forty\<lparr>enable_widget := (enable_widget sixty_forty)(2 \<mapsto> True),
                  ticker_data := (ticker_data sixty_forty)(2 \<mapsto>
                     \<lparr>enabled = True, ticker_value = [], valid = False\<rparr>)\<rparr>"

text \<open>\<open>sixty_forty\<close> after the check box of row 0 was cleared.\<close>

definition aapl_disabled :: session_state where
  "aapl_disabled =
     \<lparr>ticker_widget = (\<lambda>i. if i = 0 then Some ''AAPL'' else if i = 1 then Some ''MSFT''
                           else if i < 5 then Some [] else None),
      enable_widget = (\<lambda>i. if i = 0 then Some False else if i = 1 then Some True
                           else if i < 5 then Some False else None),
      ticker_data = [0 \<mapsto> \<lparr>enabled = False, ticker_value = ''AAPL'', valid = False\<rparr>,
                     1 \<mapsto> \<lparr>enabled = True, ticker_value = ''MSFT'', valid = True\<rparr>],
      weights = [(''AAPL'', 60), (''MSFT'', 40)],
      valid_tickers = [''AAPL'', ''MSFT'']\<rparr>"

text \<open>Rows 0 and 1 commit AAPL and MSFT, then the check box of row 0 is cleared.\<close>

definition disable_events :: "event list" where
  "disable_events = [SlotEnabledChanged 0 True, SlotTextChanged 0 ''AAPL'',
                     SlotEnabledChanged 1 True, SlotTextChanged 1 ''MSFT'',
                     SlotEnabledChanged 0 False]"

definition disable_state :: session_state where
  "disable_state =
     \<lparr>ticker_widget = (\<lambda>i. if i = 0 then Some ''AAPL'' else if i = 1 then Some ''MSFT''
                           else if i < 5 then Some [] else None),
      enable_widget = (\<lambda>i. if i = 0 then Some False else if i = 1 then Some True
                           else if i < 5 then Some False else None),
      ticker_data = [0 \<mapsto> \<lparr>enabled = False, ticker_value = ''AAPL'', valid = False\<rparr>,
                     1 \<mapsto> \<lparr>enabled = True, ticker_value = ''MSFT'', valid = True\<rparr>],
      weights = [(''AAPL'', 100), (''MSFT'', 0)],
      valid_tickers = [''AAPL'', ''MSFT'']\<rparr>"

text \<open>Two rows commit the same ticker.\<close>

definition dup_events :: "event list" where
  "dup_events = [SlotEnabledChanged 0 True, SlotTextChanged 0 ''AAPL'',
                 SlotEnabledChanged 1 True, SlotTextChanged 1 ''AAPL'']"

definition dup_state :: session_state where
  "dup_state =
     \<lparr>ticker_widget = (\<lambda>i. if i < 2 then Some ''AAPL'' else if i < 5 then Some [] else None),
      enable_widget = (\<lambda>i. if i < 2 then Some True else if i < 5 then Some False else None),
      ticker_data = [0 \<mapsto> \<lparr>enabled = True, ticker_value = ''AAPL'', valid = True\<rparr>,
                     1 \<mapsto> \<lparr>enabled = True, ticker_value = ''AAPL'', valid = True\<rparr>],
      weights = [(''AAPL'', 100)],
      valid_tickers = [''AAPL'']\<rparr>"

text \<open>Row 0 commits AAPL and is then edited to MSFT.\<close>

definition retype_events :: "event list" where
  "retype_events = [SlotEnabledChanged 0 True, SlotTextChanged 0 ''AAPL'',
                    SlotTextChanged 0 ''MSFT'']"

definition retype_state :: session_state where
  "retype_state =
     \<lparr>ticker_widget = (\<lambda>i. if i = 0 then Some ''MSFT'' else if i < 5 then Some [] else None),
      enable_widget = (\<lambda>i. if i = 0 then Some True else if i < 5 then Some False else None),
      ticker_data = [0 \<mapsto> \<lparr>enabled = True, ticker_value = ''MSFT'', valid = True\<rparr>],
      weights = [(''AAPL'', 100), (''MSFT'', 0)],
      valid_tickers = [''AAPL'', ''MSFT'']\<rparr>"

text \<open>Runs of \<^verbatim>\<open>app.py\<close>: the values its row widgets return (rows past the list are
  disabled and empty), and sessions between two runs.\<close>

definition row_widgets :: "(bool \<times> string) list \<Rightarrow> nat \<Rightarrow> bool \<times> string" where
  "row_widgets rows i = (if i < length rows then rows ! i else (False, []))"

definition aapl_only_v1 :: v1_state where
  "aapl_only_v1 = \<lparr>weights_v1 = [(''AAPL'', 100)],
                    tickers_v1 = [''AAPL'', [], [], [], []],
                    prev_tickers_v1 = Some [''AAPL'']\<rparr>"

definition aapl_zero_v1 :: v1_state where
  "aapl_zero_v1 = \<lparr>weights_v1 = [(''AAPL'', 0)],
                    tickers_v1 = [''AAPL'', [], [], [], []],
                    prev_tickers_v1 = Some [''AAPL'']\<rparr>"

definition sixty_forty_v1 :: v1_state where
  "sixty_forty_v1 = \<lparr>weights_v1 = [(''AAPL'', 60), (''MSFT'', 40)],
                    tickers_v1 = [''AAPL'', ''MSFT'', [], [], []],
                    prev_tickers_v1 = Some [''AAPL'', ''MSFT'']\<rparr>"

definition thirds_v1 :: v1_state where
  "thirds_v1 = \<lparr>weights_v1 = [(''AAPL'', 100 / 3), (''MSFT'', 100 / 3), (''GOOG'', 100 / 3)],
                    tickers_v1 = [''AAPL'', ''MSFT'', ''GOOG'', [], []],
                    prev_tickers_v1 = Some [''AAPL'', ''MSFT'', ''GOOG'']\<rparr>"

definition msft_only_v1 :: v1_state where
  "msft_only_v1 = \<lparr>weights_v1 = [(''MSFT'', 100)],
                    tickers_v1 = [''AAPL'', ''MSFT'', [], [], []],
                    prev_tickers_v1 = Some [''MSFT'']\<rparr>"

definition aapl_twice_v1 :: v1_state where
  "aapl_twice_v1 = \<lparr>weights_v1 = [(''AAPL'', 200)],
                     tickers_v1 = [''AAPL'', ''AAPL'', [], [], []],
                     prev_tickers_v1 = Some [''AAPL'', ''AAPL'']\<rparr>"


section \<open>Dictionaries and renormalisation: basic facts\<close>

lemma keys_rescale: "keys (rescale tot d) = keys d"
  by (induction d) (auto simp: keys_def rescale_def)

lemma total_weight_rescale: "total_weight (rescale tot d) = total_weight d / tot * 100"
  by (induction d) (auto simp: total_weight_def rescale_def add_divide_distrib distrib_right)

lemma rescale_100: "rescale 100 d = d"
  by (induction d) (auto simp: rescale_def)

lemma length_rescale: "length (rescale tot d) = length d"
  by (simp add: rescale_def)

lemma update_fresh: "k \<notin> fst ` set d \<Longrightarrow> AList.update k v d = d @ [(k, v)]"
  by (induction d) auto

lemma fold_update_fresh:
  "distinct ts \<Longrightarrow> set ts \<inter> fst ` set d = {} \<Longrightarrow>
     fold (\<lambda>t d. AList.update t w d) ts d = d @ map (\<lambda>t. (t, w)) ts"
proof (induction ts arbitrary: d)
  case Nil
  then show ?case by simp
next
  case (Cons t ts)
  have fresh: "t \<notin> fst ` set d" using Cons.prems by auto
  have "set ts \<inter> fst ` set (d @ [(t, w)]) = {}" using Cons.prems by auto
  with Cons show ?case by (simp add: update_fresh [OF fresh])
qed

lemma dict_comprehension_distinct:
  "distinct ts \<Longrightarrow> dict_comprehension ts w = map (\<lambda>t. (t, w)) ts"
  by (simp add: dict_comprehension_def fold_update_fresh)

lemma fold_update_keys:
  "fst ` set (fold (\<lambda>t d. AList.update t w d) ts d) = set ts \<union> fst ` set d"
  by (induction ts arbitrary: d) (auto simp: AList.dom_update)

lemma set_keys_dict_comprehension: "set (keys (dict_comprehension ts w)) = set ts"
  by (simp add: dict_comprehension_def keys_def fold_update_keys)

lemma fold_update_distinct:
  "distinct (map fst d) \<Longrightarrow> distinct (map fst (fold (\<lambda>t d. AList.update t w d) ts d))"
  by (induction ts arbitrary: d) (auto simp: AList.distinct_update)

lemma distinct_keys_dict_comprehension: "distinct (keys (dict_comprehension ts w))"
  by (simp add: dict_comprehension_def keys_def fold_update_distinct)

lemma fold_update_values:
  "\<forall>v \<in> snd ` set d. v = w \<Longrightarrow> (k, v) \<in> set (fold (\<lambda>t d. AList.update t w d) ts d) \<Longrightarrow> v = w"
proof (induction ts arbitrary: d)
  case Nil then show ?case by force
next
  case (Cons t ts)
  have "\<forall>v \<in> snd ` set (AList.update t w d). v = w"
    using Cons.prems(1) by (induction d) auto
  with Cons show ?case by simp
qed

lemma total_weight_const: "total_weight (map (\<lambda>t. (t, w)) ts) = real (length ts) * w"
  by (induction ts) (auto simp: total_weight_def algebra_simps)


lemma normalize_weights_fields [simp]:
  "valid_tickers (normalize_weights s) = valid_tickers s"
  "ticker_data (normalize_weights s) = ticker_data s"
  "ticker_widget (normalize_weights s) = ticker_widget s"
  "enable_widget (normalize_weights s) = enable_widget s"
  by (simp_all add: normalize_weights_def Let_def)

lemma weights_normalize_zero:
  "total_weight (weights s) = 0 \<Longrightarrow>
     weights (normalize_weights s) =
       dict_comprehension (valid_tickers s)
         (if valid_tickers s \<noteq> [] then 100 / real (length (valid_tickers s)) else 0)"
  by (simp add: normalize_weights_def Let_def)

lemma weights_normalize_nonzero:
  "total_weight (weights s) \<noteq> 0 \<Longrightarrow>
     weights (normalize_weights s) = rescale (total_weight (weights s)) (weights s)"
  by (simp add: normalize_weights_def Let_def)

lemma normalize_weights_normalized:
  assumes "distinct (valid_tickers s)"
  shows "normalized (weights (normalize_weights s))"
proof (cases "total_weight (weights s) = 0")
  case True
  show ?thesis
  proof (cases "valid_tickers s = []")
    case True
    with \<open>total_weight (weights s) = 0\<close> show ?thesis
      by (simp add: weights_normalize_zero normalized_def dict_comprehension_def)
  next
    case False
    then have "real (length (valid_tickers s)) \<noteq> 0" by simp
    then have "real (length (valid_tickers s)) * (100 / real (length (valid_tickers s))) = 100"
      by simp
    with True False assms show ?thesis
      by (simp add: weights_normalize_zero normalized_def dict_comprehension_distinct
          total_weight_const)
  qed
next
  case False
  then show ?thesis
    by (simp add: weights_normalize_nonzero normalized_def total_weight_rescale)
qed

lemma keys_const: "keys (map (\<lambda>t. (t, w)) ts) = ts"
  by (induction ts) (auto simp: keys_def)

lemma normalize_weights_consistent:
  assumes "registry_consistent s"
  shows "registry_consistent (normalize_weights s)"
proof (cases "total_weight (weights s) = 0")
  case True
  with assms show ?thesis
    by (simp add: registry_consistent_def weights_normalize_zero dict_comprehension_distinct
        keys_const)
next
  case False
  with assms show ?thesis
    by (simp add: registry_consistent_def weights_normalize_nonzero keys_rescale)
qed

lemma keys_delete_distinct:
  "distinct (keys d) \<Longrightarrow> keys (AList.delete t d) = remove1 t (keys d)"
  by (simp add: keys_def AList.delete_keys distinct_remove1_removeAll)

lemma clear_ticker_consistent:
  assumes "registry_consistent s"
  shows "registry_consistent (clear_ticker t s)"
  using assms
  by (auto simp: registry_consistent_def clear_ticker_def Let_def keys_delete_distinct)

lemma keys_update_fresh: "t \<notin> set (keys d) \<Longrightarrow> keys (AList.update t w d) = keys d @ [t]"
  by (simp add: keys_def update_fresh)

lemma add_ticker_consistent:
  assumes "registry_consistent s"
  shows "registry_consistent (add_ticker t s)"
  using assms
  by (auto simp: registry_consistent_def add_ticker_def Let_def keys_update_fresh)

lemma clear_ticker_valid: "tickers_valid s \<Longrightarrow> tickers_valid (clear_ticker t s)"
  by (auto simp: tickers_valid_def clear_ticker_def Let_def list_all_iff dest: notin_set_remove1)

lemma add_ticker_valid:
  "validate_ticker t \<Longrightarrow> tickers_valid s \<Longrightarrow> tickers_valid (add_ticker t s)"
  by (auto simp: tickers_valid_def add_ticker_def Let_def)

lemma handle_ticker_change_Inr:
  assumes "ticker_widget s i = Some raw" and "enable_widget s i = Some en"
  shows "handle_ticker_change i s =
     (let ticker = upper (strip raw);
          s1 = (if ticker \<noteq> stored_value s i then clear_ticker ticker s else s);
          ok = validate_ticker ticker;
          s2 = (if en \<and> ticker \<noteq> [] \<and> ok then add_ticker ticker s1 else s1);
          msgs = (if en \<and> ticker \<noteq> [] \<and> \<not> ok
                  then [StError (''Invalid ticker format: '' @ ticker)] else []);
          s3 = s2\<lparr>ticker_data := (ticker_data s2)(i \<mapsto>
                  \<lparr>enabled = en, ticker_value = ticker,
                   valid = (if en then ok else False)\<rparr>)\<rparr>
      in Inr (msgs, normalize_weights s3))"
  unfolding handle_ticker_change_def assms option.case ..

lemma clear_add_fields [simp]:
  "ticker_data (clear_ticker t s) = ticker_data s"
  "ticker_data (add_ticker t s) = ticker_data s"
  "ticker_widget (clear_ticker t s) = ticker_widget s"
  "ticker_widget (add_ticker t s) = ticker_widget s"
  "enable_widget (clear_ticker t s) = enable_widget s"
  "enable_widget (add_ticker t s) = enable_widget s"
  by (simp_all add: clear_ticker_def add_ticker_def Let_def)

lemma handle_ticker_change_inv:
  assumes "registry_consistent s" and "tickers_valid s"
    and "handle_ticker_change i s = Inr (msgs, s')"
  shows "registry_consistent s' \<and> tickers_valid s' \<and> normalized (weights s')"
proof -
  from assms(3) obtain raw en where w: "ticker_widget s i = Some raw" "enable_widget s i = Some en"
    by (auto simp: handle_ticker_change_def split: option.splits)
  define ticker where "ticker = upper (strip raw)"
  define s1 where "s1 = (if ticker \<noteq> stored_value s i then clear_ticker ticker s else s)"
  define s2 where "s2 = (if en \<and> ticker \<noteq> [] \<and> validate_ticker ticker then add_ticker ticker s1 else s1)"
  define s3 where "s3 = s2\<lparr>ticker_data := (ticker_data s2)(i \<mapsto>
      \<lparr>enabled = en, ticker_value = ticker, valid = (if en then validate_ticker ticker else False)\<rparr>)\<rparr>"
  have "handle_ticker_change i s = Inr (msgs, s')" by (rule assms(3))
  then have s': "s' = normalize_weights s3"
    unfolding handle_ticker_change_Inr [OF w] Let_def s3_def s2_def s1_def ticker_def by simp
  have c1: "registry_consistent s1" "tickers_valid s1"
    using assms(1,2) by (simp_all add: s1_def clear_ticker_consistent clear_ticker_valid)
  have c2: "registry_consistent s2" "tickers_valid s2"
    using c1 by (simp_all add: s2_def add_ticker_consistent add_ticker_valid)
  have c3: "registry_consistent s3" "tickers_valid s3"
    using c2 by (simp_all add: s3_def registry_consistent_def tickers_valid_def)
  show ?thesis
    using c3 normalize_weights_consistent [OF c3(1)] normalize_weights_normalized [of s3]
    by (simp add: s' tickers_valid_def registry_consistent_def)
qed

lemma map_const_eq: "keys d = ts \<Longrightarrow> map (\<lambda>t. (t, w)) ts = map (\<lambda>(t, _). (t, w)) d"
  by (induction d arbitrary: ts) (auto simp: keys_def)

lemma dict_comprehension_Nil_iff: "dict_comprehension ts w = [] \<longleftrightarrow> ts = []"
proof (cases ts rule: rev_cases)
  case Nil then show ?thesis by (simp add: dict_comprehension_def)
next
  case (snoc ys y) then show ?thesis by (simp add: dict_comprehension_def)
qed

lemma normalize_weights_fixed:
  assumes "total_weight (weights s) = 100"
  shows "normalize_weights s = s"
  using assms by (simp add: normalize_weights_def Let_def rescale_100)

section \<open>The handler of \<^verbatim>\<open>app_v3.py\<close>: facts used below\<close>

lemmas str_defs = upper_def strip_def upper_char_def py_isspace_def validate_ticker_def
  is_upper_letter_def

lemmas v3_defs = setSlotText_def setSlotEnabled_def handle_ticker_change_def Let_def
  stored_value_def clear_ticker_def add_ticker_def normalize_weights_def
  total_weight_def dict_comprehension_def rescale_def keys_def

lemmas v1_defs = script_run_def ticker_rows_def ticker_row_def reset_weights_def
  auto_balance_def update_weight_from_text_def total_weight_def dict_comprehension_def
  Let_def upt_rec

lemma upper_strip_aapl: "upper (strip '' aapl '') = ''AAPL''"
  by (simp add: upper_def strip_def upper_char_def py_isspace_def)

lemma validate_aapl: "validate_ticker ''AAPL''"
  by (simp add: validate_ticker_def is_upper_letter_def)

lemma upper_strip_abcde: "upper (strip ''abcde'') = ''ABCDE''"
  by (simp add: str_defs)

lemma validate_abcde: "validate_ticker ''ABCDE''"
  by (simp add: str_defs)

lemma setSlotText_Inr:
  assumes "enable_widget s i = Some en"
  shows "setSlotText i raw s =
     (let ticker = upper (strip raw);
          s0 = s\<lparr>ticker_widget := (ticker_widget s)(i \<mapsto> raw)\<rparr>;
          s1 = (if ticker \<noteq> stored_value s i then clear_ticker ticker s0 else s0);
          ok = validate_ticker ticker;
          s2 = (if en \<and> ticker \<noteq> [] \<and> ok then add_ticker ticker s1 else s1);
          msgs = (if en \<and> ticker \<noteq> [] \<and> \<not> ok
                  then [StError (''Invalid ticker format: '' @ ticker)] else []);
          s3 = s2\<lparr>ticker_data := (ticker_data s2)(i \<mapsto>
                  \<lparr>enabled = en, ticker_value = ticker,
                   valid = (if en then ok else False)\<rparr>)\<rparr>
      in Inr (msgs, normalize_weights s3))"
proof -
  let ?s0 = "s\<lparr>ticker_widget := (ticker_widget s)(i \<mapsto> raw)\<rparr>"
  have a: "ticker_widget ?s0 i = Some raw" "enable_widget ?s0 i = Some en"
    using assms by simp_all
  have b: "stored_value ?s0 i = stored_value s i" by (simp add: stored_value_def)
  show ?thesis
    unfolding setSlotText_def handle_ticker_change_Inr [OF a] b Let_def ..
qed

lemma clear_ticker_absent:
  "t \<notin> set (keys (weights s)) \<Longrightarrow> weights (clear_ticker t s) = weights s"
  by (simp add: clear_ticker_def Let_def)

lemma clear_ticker_not_listed:
  "t \<notin> set (valid_tickers s) \<Longrightarrow> t \<notin> set (keys (weights s)) \<Longrightarrow> clear_ticker t s = s"
  by (simp add: clear_ticker_def Let_def)

lemma add_ticker_weights_fresh:
  "t \<notin> set (keys (weights s)) \<Longrightarrow> weights (add_ticker t s) = weights s @ [(t, 0)]"
  by (simp add: add_ticker_def Let_def keys_def update_fresh)

lemma add_ticker_member: "t \<in> set (valid_tickers (add_ticker t s))"
  by (simp add: add_ticker_def Let_def)

lemma total_weight_append: "total_weight (d @ e) = total_weight d + total_weight e"
  by (simp add: total_weight_def)

lemma set_keys_normalize:
  assumes "registry_consistent s"
  shows "keys (weights (normalize_weights s)) = valid_tickers s"
  using normalize_weights_consistent [OF assms] by (simp add: registry_consistent_def)

lemma single_key_normalized:
  assumes "normalized d" and "keys d = [k]"
  shows "d = [(k, 100)]"
proof -
  from assms(2) obtain w where d: "d = [(k, w)]"
    by (cases d) (auto simp: keys_def)
  with assms(1) show ?thesis by (simp add: normalized_def total_weight_def)
qed

lemma normalize_weights_normalized_id:
  assumes "registry_consistent s" and "normalized (weights s)"
  shows "weights (normalize_weights s) = weights s"
proof (cases "weights s = []")
  case True
  then have "valid_tickers s = []"
    using assms(1) by (simp add: registry_consistent_def keys_def)
  with True show ?thesis
    by (simp add: normalize_weights_def Let_def total_weight_def dict_comprehension_def)
next
  case False
  with assms(2) have "total_weight (weights s) = 100" by (simp add: normalized_def)
  then show ?thesis by (simp add: normalize_weights_fixed)
qed

text \<open>Every call of \<open>normalize_weights\<close> that the handler makes from a state with a
  consistent registry is on a state with a consistent registry.\<close>

lemma handle_ticker_change_normalizes_consistent:
  assumes "registry_consistent s" and "handle_ticker_change i s = Inr (msgs, s')"
  shows "\<exists>s3. registry_consistent s3 \<and> s' = normalize_weights s3"
proof -
  from assms(2) obtain raw en where w: "ticker_widget s i = Some raw" "enable_widget s i = Some en"
    by (auto simp: handle_ticker_change_def split: option.splits)
  define ticker where "ticker = upper (strip raw)"
  define s1 where "s1 = (if ticker \<noteq> stored_value s i then clear_ticker ticker s else s)"
  define s2 where "s2 = (if en \<and> ticker \<noteq> [] \<and> validate_ticker ticker then add_ticker ticker s1 else s1)"
  define s3 where "s3 = s2\<lparr>ticker_data := (ticker_data s2)(i \<mapsto>
      \<lparr>enabled = en, ticker_value = ticker, valid = (if en then validate_ticker ticker else False)\<rparr>)\<rparr>"
  have "handle_ticker_change i s = Inr (msgs, s')" by (rule assms(2))
  then have s': "s' = normalize_weights s3"
    unfolding handle_ticker_change_Inr [OF w] Let_def s3_def s2_def s1_def ticker_def by simp
  have "registry_consistent s1"
    using assms(1) by (simp add: s1_def clear_ticker_consistent)
  then have "registry_consistent s2"
    by (simp add: s2_def add_ticker_consistent)
  then have "registry_consistent s3"
    by (simp add: s3_def registry_consistent_def)
  with s' show ?thesis by blast
qed

text \<open>The three properties are kept by every event, so they hold in every state the
  events reach from the initial session. In particular the weights of \<^verbatim>\<open>app_v3.py\<close>
  are empty or sum to 100 after every handler.\<close>

lemma step_invariant:
  assumes "registry_consistent s" and "tickers_valid s" and "step e s = Inr (msgs, s')"
  shows "registry_consistent s' \<and> tickers_valid s' \<and> normalized (weights s')"
proof (cases e)
  case (SlotEnabledChanged i en)
  let ?s0 = "s\<lparr>enable_widget := (enable_widget s)(i \<mapsto> en)\<rparr>"
  have "registry_consistent ?s0" "tickers_valid ?s0"
    using assms(1,2) by (simp_all add: registry_consistent_def tickers_valid_def)
  moreover have "handle_ticker_change i ?s0 = Inr (msgs, s')"
    using assms(3) SlotEnabledChanged by (simp add: setSlotEnabled_def)
  ultimately show ?thesis by (rule handle_ticker_change_inv)
next
  case (SlotTextChanged i raw)
  let ?s0 = "s\<lparr>ticker_widget := (ticker_widget s)(i \<mapsto> raw)\<rparr>"
  have "registry_consistent ?s0" "tickers_valid ?s0"
    using assms(1,2) by (simp_all add: registry_consistent_def tickers_valid_def)
  moreover have "handle_ticker_change i ?s0 = Inr (msgs, s')"
    using assms(3) SlotTextChanged by (simp add: setSlotText_def)
  ultimately show ?thesis by (rule handle_ticker_change_inv)
next
  case WeightChanged
  then have "s' = normalize_weights s" using assms(3) by simp
  then show ?thesis
    using assms(1,2) normalize_weights_consistent [OF assms(1)]
      normalize_weights_normalized [of s]
    by (simp add: registry_consistent_def tickers_valid_def)
qed

lemma run_invariant:
  assumes "registry_consistent s" and "tickers_valid s" and "normalized (weights s)"
    and "run evs s = Inr s'"
  shows "registry_consistent s' \<and> tickers_valid s' \<and> normalized (weights s')"
  using assms
proof (induction evs arbitrary: s)
  case Nil
  then show ?case by simp
next
  case (Cons e evs)
  from Cons.prems(4) obtain msgs s1 where st: "step e s = Inr (msgs, s1)" and r: "run evs s1 = Inr s'"
    by (auto split: sum.splits)
  from step_invariant [OF Cons.prems(1,2) st] Cons.IH [OF _ _ _ r] show ?case by blast
qed

lemma initial_state_invariant:
  "registry_consistent initial_state" "tickers_valid initial_state"
  "normalized (weights initial_state)"
  by (simp_all add: initial_state_def registry_consistent_def tickers_valid_def normalized_def
      keys_def)

lemma run_dup_events: "run dup_events initial_state = Inr dup_state"
  by (simp add: dup_events_def dup_state_def initial_state_def v3_defs str_defs fun_eq_iff)

lemma run_retype_events: "run retype_events initial_state = Inr retype_state"
  by (simp add: retype_events_def retype_state_def initial_state_def v3_defs str_defs fun_eq_iff)

text \<open>From the initial session: after rows 0 and 1 committed AAPL and MSFT and row 0 was
  disabled, AAPL still holds the whole allocation.\<close>

lemma run_disable_events: "run disable_events initial_state = Inr disable_state"
  by (simp add: disable_events_def disable_state_def initial_state_def v3_defs str_defs fun_eq_iff)

text \<open>Clearing the check box of a row whose text is the stored ticker changes neither the
  weights nor the valid-ticker list.\<close>

lemma setSlotEnabled_False_keeps:
  assumes "ticker_widget s i = Some raw" and "upper (strip raw) = stored_value s i"
    and "total_weight (weights s) = 100"
  shows "\<exists>s'. setSlotEnabled i False s = Inr ([], s')
           \<and> weights s' = weights s \<and> valid_tickers s' = valid_tickers s"
proof -
  let ?s0 = "s\<lparr>enable_widget := (enable_widget s)(i \<mapsto> False)\<rparr>"
  have a: "ticker_widget ?s0 i = Some raw" "enable_widget ?s0 i = Some False"
    using assms(1) by simp_all
  have b: "stored_value ?s0 i = stored_value s i" by (simp add: stored_value_def)
  let ?s3 = "?s0\<lparr>ticker_data := (ticker_data ?s0)(i \<mapsto>
       \<lparr>enabled = False, ticker_value = upper (strip raw), valid = False\<rparr>)\<rparr>"
  have r: "setSlotEnabled i False s = Inr ([], normalize_weights ?s3)"
    unfolding setSlotEnabled_def handle_ticker_change_Inr [OF a] b Let_def
    using assms(2) by simp
  have "total_weight (weights ?s3) = 100" using assms(3) by simp
  then have "normalize_weights ?s3 = ?s3" by (rule normalize_weights_fixed)
  with r show ?thesis by simp
qed

text \<open>\<^verbatim>\<open>app.py\<close>: a run with row 0 disabled drops AAPL and gives MSFT the whole
  allocation; a run with the same ticker in two rows doubles its weight.\<close>

lemma app_disable_resets:
  "script_run (row_widgets [(False, ''AAPL''), (True, ''MSFT'')]) sixty_forty_v1
     = Inr ([], msft_only_v1)"
  by (simp add: v1_defs row_widgets_def sixty_forty_v1_def msft_only_v1_def str_defs)

lemma app_duplicate_ticker_doubles:
  "script_run (row_widgets [(True, ''AAPL''), (True, ''AAPL'')]) initial_v1
     = Inr ([StWarningTotal 50], aapl_twice_v1)"
  by (simp add: v1_defs row_widgets_def initial_v1_def aapl_twice_v1_def str_defs
      eval_nat_numeral)


section \<open>The sum of the weights\<close>

text \<open>
  Claim C1 (the weights sum to 100 after every interaction). \<^verbatim>\<open>app_v3.py\<close> keeps
  this: see \<open>run_invariant\<close>. \<^verbatim>\<open>app.py\<close> does not. Its session after one run with
  row 0 holding AAPL has the weights AAPL: 100. Typing 0 into the weight field of AAPL
  makes \<open>update_weight_from_text\<close> store AAPL: 0, a non-empty table that sums to 0; the
  script run that follows reaches the auto-balance block with a total of 0 and the
  division raises \<^verbatim>\<open>ZeroDivisionError\<close>, so no balanced table is ever produced.
\<close>

theorem C1_zero_total_raises:
  "script_run (row_widgets [(True, ''AAPL'')]) initial_v1 = Inr ([], aapl_only_v1)
   \<and> update_weight_from_text (Parsed 0) ''AAPL'' aapl_only_v1 = aapl_zero_v1
   \<and> weights_v1 aapl_zero_v1 = [(''AAPL'', 0)]
   \<and> script_run (row_widgets [(True, ''AAPL'')]) aapl_zero_v1 = Inl ZeroDivisionError"
  by (simp add: v1_defs row_widgets_def initial_v1_def aapl_only_v1_def aapl_zero_v1_def str_defs
      eval_nat_numeral)

section \<open>Registry and weight table\<close>

text \<open>
  Claim C2, as amended (registry consistency). In every state the events reach from the
  initial session, every key of the weights is a ticker that matches the pattern and is
  listed in the valid-ticker list; the keys are pairwise distinct and are the
  valid-ticker list, entry by entry. How many enabled rows hold a key is not fixed.
\<close>

theorem C2_registry:
  assumes "run evs initial_state = Inr s" and "k \<in> set (keys (weights s))"
  shows "validate_ticker k \<and> k \<in> set (valid_tickers s)
         \<and> distinct (keys (weights s)) \<and> keys (weights s) = valid_tickers s"
proof -
  have "registry_consistent s \<and> tickers_valid s \<and> normalized (weights s)"
    using initial_state_invariant assms(1) by (rule run_invariant)
  with assms(2) show ?thesis
    by (auto simp: registry_consistent_def tickers_valid_def list_all_iff)
qed

theorem C2_registry_witness:
  "run dup_events initial_state = Inr dup_state \<and> ''AAPL'' \<in> set (keys (weights dup_state))
   \<and> validate_ticker ''AAPL'' \<and> ''AAPL'' \<in> set (valid_tickers dup_state)
   \<and> distinct (keys (weights dup_state)) \<and> keys (weights dup_state) = valid_tickers dup_state"
proof -
  have k: "''AAPL'' \<in> set (keys (weights dup_state))"
    by (simp add: dup_state_def keys_def)
  show ?thesis
    using run_dup_events k C2_registry [OF run_dup_events k] by blast
qed

text \<open>Claim C2 as stated fails: after two rows committed AAPL, the key AAPL is held by
  two enabled rows; after row 0 was edited from AAPL to MSFT, the key AAPL is still in
  the weights and row 0, the only row with data, no longer holds it.\<close>

theorem C2_not_exactly_one_slot:
  "run dup_events initial_state = Inr dup_state
   \<and> ''AAPL'' \<in> set (keys (weights dup_state))
   \<and> slot_holds dup_state 0 ''AAPL'' \<and> slot_holds dup_state 1 ''AAPL''
   \<and> run retype_events initial_state = Inr retype_state
   \<and> ''AAPL'' \<in> set (keys (weights retype_state))
   \<and> dom (ticker_data retype_state) = {0} \<and> \<not> slot_holds retype_state 0 ''AAPL''"
proof -
  have "''AAPL'' \<in> set (keys (weights dup_state))"
    "slot_holds dup_state 0 ''AAPL''" "slot_holds dup_state 1 ''AAPL''"
    by (simp_all add: dup_state_def keys_def slot_holds_def)
  moreover have "''AAPL'' \<in> set (keys (weights retype_state))"
    "dom (ticker_data retype_state) = {0}" "\<not> slot_holds retype_state 0 ''AAPL''"
    by (simp_all add: retype_state_def keys_def slot_holds_def)
  ultimately show ?thesis
    using run_dup_events run_retype_events by blast
qed

text \<open>
  Claim C3 (disabling a row removes its allocation). In \<^verbatim>\<open>app_v3.py\<close> it does not:
  from the state with AAPL: 60 and MSFT: 40 held by the enabled rows 0 and 1, clearing
  the check box of row 0 returns without a message, the weights are still AAPL: 60 and
  MSFT: 40, the valid-ticker list still names AAPL, and no row holds AAPL any more.
\<close>

theorem C3_disable_keeps_entry:
  "setSlotEnabled 0 False sixty_forty = Inr ([], aapl_disabled)
   \<and> weights aapl_disabled = [(''AAPL'', 60), (''MSFT'', 40)]
   \<and> valid_tickers aapl_disabled = [''AAPL'', ''MSFT'']
   \<and> \<not> slot_holds aapl_disabled 0 ''AAPL'' \<and> \<not> slot_holds aapl_disabled 1 ''AAPL''"
proof -
  have "setSlotEnabled 0 False sixty_forty = Inr ([], aapl_disabled)"
    by (simp add: sixty_forty_def aapl_disabled_def v3_defs str_defs fun_eq_iff)
  then show ?thesis
    by (simp add: aapl_disabled_def slot_holds_def)
qed

section \<open>Validation of the ticker text\<close>

text \<open>
  Claim C5, as amended (validation rejects malformed input). In a state with a
  consistent registry, valid listed tickers and normalised weights, and with row \<open>i\<close>
  enabled: when the text, stripped and upper-cased, is not empty and does not match the
  pattern, \<open>setSlotText\<close> shows the error \<^verbatim>\<open>Invalid ticker format\<close> for the
  normalised text, leaves the weights and the valid-ticker list unchanged, and stores the
  row as not valid, so that the row holds no ticker.
\<close>

theorem C5_invalid_rejected:
  assumes "enable_widget s i = Some True"
    and "registry_consistent s" and "tickers_valid s" and "normalized (weights s)"
    and "upper (strip raw) \<noteq> []" and "\<not> validate_ticker (upper (strip raw))"
  shows "\<exists>s'. setSlotText i raw s
                = Inr ([StError (''Invalid ticker format: '' @ upper (strip raw))], s')
           \<and> weights s' = weights s
           \<and> valid_tickers s' = valid_tickers s
           \<and> ticker_data s' i
                = Some \<lparr>enabled = True, ticker_value = upper (strip raw), valid = False\<rparr>
           \<and> \<not> slot_holds s' i k"
proof -
  define t where "t = upper (strip raw)"
  define s0 where "s0 = s\<lparr>ticker_widget := (ticker_widget s)(i \<mapsto> raw)\<rparr>"
  define s3 where "s3 = s0\<lparr>ticker_data := (ticker_data s0)(i \<mapsto>
                  \<lparr>enabled = True, ticker_value = t, valid = False\<rparr>)\<rparr>"
  have nv: "t \<notin> set (valid_tickers s)"
    using assms(3,6) by (auto simp: tickers_valid_def list_all_iff t_def)
  then have nk: "t \<notin> set (keys (weights s))"
    using assms(2) by (simp add: registry_consistent_def)
  have cl: "clear_ticker t s0 = s0"
    using nv nk by (simp add: clear_ticker_not_listed s0_def)
  have r: "setSlotText i raw s = Inr ([StError (''Invalid ticker format: '' @ t)], normalize_weights s3)"
    using assms(5,6) cl
    by (simp add: setSlotText_Inr [OF assms(1)] Let_def s3_def t_def [symmetric] s0_def [symmetric])
  have c3: "registry_consistent s3" "normalized (weights s3)"
    using assms(2,4) by (simp_all add: s3_def s0_def registry_consistent_def)
  have w: "weights (normalize_weights s3) = weights s"
    using normalize_weights_normalized_id [OF c3] by (simp add: s3_def s0_def)
  have v: "valid_tickers (normalize_weights s3) = valid_tickers s"
    by (simp add: s3_def s0_def)
  have d: "ticker_data (normalize_weights s3) i
             = Some \<lparr>enabled = True, ticker_value = t, valid = False\<rparr>"
    by (simp add: s3_def)
  have "\<not> slot_holds (normalize_weights s3) i k"
    unfolding slot_holds_def d by simp
  with r w v d show ?thesis
    unfolding t_def by blast
qed

theorem C5_invalid_rejected_witness:
  "enable_widget msft_only 0 = Some True \<and> registry_consistent msft_only
   \<and> tickers_valid msft_only \<and> normalized (weights msft_only)
   \<and> upper (strip '' abc1e '') = ''ABC1E'' \<and> \<not> validate_ticker ''ABC1E''
   \<and> (\<exists>s'. setSlotText 0 '' abc1e '' msft_only = Inr ([StError ''Invalid ticker format: ABC1E''], s')
          \<and> weights s' = [(''MSFT'', 100)] \<and> valid_tickers s' = [''MSFT'']
          \<and> \<not> slot_holds s' 0 ''ABC1E'')"
proof -
  have u: "upper (strip '' abc1e '') = ''ABC1E''" by (simp add: str_defs)
  have h: "enable_widget msft_only 0 = Some True" "registry_consistent msft_only"
    "tickers_valid msft_only" "normalized (weights msft_only)"
    by (simp_all add: msft_only_def registry_consistent_def tickers_valid_def normalized_def
        keys_def total_weight_def str_defs)
  have n: "upper (strip '' abc1e '') \<noteq> []" "\<not> validate_ticker (upper (strip '' abc1e ''))"
    by (simp_all add: u) (simp add: str_defs)
  have f: "weights msft_only = [(''MSFT'', 100)]" "valid_tickers msft_only = [''MSFT'']"
    by (simp_all add: msft_only_def)
  from C5_invalid_rejected [OF h n, of "''ABC1E''"] obtain s' where
    "setSlotText 0 '' abc1e '' msft_only = Inr ([StError (''Invalid ticker format: '' @ ''ABC1E'')], s')"
    "weights s' = weights msft_only" "valid_tickers s' = valid_tickers msft_only"
    "\<not> slot_holds s' 0 ''ABC1E''"
    unfolding u by blast
  then have "\<exists>s'. setSlotText 0 '' abc1e '' msft_only = Inr ([StError ''Invalid ticker format: ABC1E''], s')
          \<and> weights s' = [(''MSFT'', 100)] \<and> valid_tickers s' = [''MSFT'']
          \<and> \<not> slot_holds s' 0 ''ABC1E''"
    using f by auto
  with h u n show ?thesis by (simp add: u)
qed

text \<open>Claim C5 as stated fails at its own example: \<^verbatim>\<open>"abcde"\<close> is upper-cased to
  ABCDE before it is validated, ABCDE matches the pattern, and the ticker is committed
  with the whole allocation and no message.\<close>

theorem C5_abcde_is_committed:
  "setSlotText 0 ''abcde'' slot0_enabled = Inr ([], abcde_committed)
   \<and> slot_holds abcde_committed 0 ''ABCDE''
   \<and> weights slot0_enabled = [] \<and> weights abcde_committed = [(''ABCDE'', 100)]"
proof -
  have e: "enable_widget slot0_enabled 0 = Some True"
    by (simp add: slot0_enabled_def initial_state_def)
  have "setSlotText 0 ''abcde'' slot0_enabled = Inr ([], abcde_committed)"
    by (simp add: setSlotText_Inr [OF e] Let_def upper_strip_abcde validate_abcde)
       (simp add: slot0_enabled_def initial_state_def abcde_committed_def v3_defs)
  then show ?thesis
    by (simp add: abcde_committed_def slot_holds_def slot0_enabled_def initial_state_def)
qed

text \<open>
  Claim C6 (validation accepts and commits). In a state with a consistent registry and
  row \<open>i\<close> enabled, \<open>setSlotText\<close> with the text \<^verbatim>\<open>" aapl "\<close> shows no message and
  commits AAPL to the row; AAPL is a key of the weights afterwards; when AAPL was no key
  before, the new weights are those of renormalising the old table with the entry
  AAPL: 0 appended; and when AAPL is the only key afterwards its weight is 100.
\<close>

theorem C6_commit:
  assumes "enable_widget s i = Some True" and "registry_consistent s"
  shows "\<exists>s'. setSlotText i '' aapl '' s = Inr ([], s')
           \<and> slot_holds s' i ''AAPL''
           \<and> ''AAPL'' \<in> set (keys (weights s'))
           \<and> (''AAPL'' \<notin> set (keys (weights s)) \<longrightarrow>
                weights s' = weights (normalize_weights (s\<lparr>weights := weights s @ [(''AAPL'', 0)],
                                         valid_tickers := valid_tickers s @ [''AAPL'']\<rparr>)))
           \<and> (keys (weights s') = [''AAPL''] \<longrightarrow> weights s' = [(''AAPL'', 100)])"
proof -
  define t where "t = ''AAPL''"
  define s0 where "s0 = s\<lparr>ticker_widget := (ticker_widget s)(i \<mapsto> '' aapl '')\<rparr>"
  define s1 where "s1 = (if t \<noteq> stored_value s i then clear_ticker t s0 else s0)"
  define s2 where "s2 = add_ticker t s1"
  define s3 where "s3 = s2\<lparr>ticker_data := (ticker_data s2)(i \<mapsto>
                  \<lparr>enabled = True, ticker_value = t, valid = True\<rparr>)\<rparr>"
  define s' where "s' = normalize_weights s3"
  have r: "setSlotText i '' aapl '' s = Inr ([], s')"
    by (simp add: setSlotText_Inr [OF assms(1)] Let_def upper_strip_aapl validate_aapl
        s'_def s3_def s2_def s1_def s0_def t_def)
  have c0: "registry_consistent s0"
    using assms(2) by (simp add: s0_def registry_consistent_def)
  have c1: "registry_consistent s1"
    using c0 by (simp add: s1_def clear_ticker_consistent)
  have c2: "registry_consistent s2"
    using c1 by (simp add: s2_def add_ticker_consistent)
  have c3: "registry_consistent s3"
    using c2 by (simp add: s3_def registry_consistent_def)
  have holds: "slot_holds s' i ''AAPL''"
    by (simp add: s'_def s3_def slot_holds_def t_def)
  have "t \<in> set (valid_tickers s3)"
    by (simp add: s3_def s2_def add_ticker_member)
  then have mem: "''AAPL'' \<in> set (keys (weights s'))"
    by (simp add: s'_def set_keys_normalize [OF c3] t_def)
  have fresh: "weights s' = weights (normalize_weights (s\<lparr>weights := weights s @ [(''AAPL'', 0)],
                                         valid_tickers := valid_tickers s @ [''AAPL'']\<rparr>))"
    if nin: "''AAPL'' \<notin> set (keys (weights s))"
  proof -
    have nv: "t \<notin> set (valid_tickers s)"
      using nin assms(2) by (simp add: registry_consistent_def t_def)
    have "weights s1 = weights s \<and> valid_tickers s1 = valid_tickers s"
      using nin nv by (simp add: s1_def s0_def clear_ticker_def Let_def t_def)
    then have "weights s3 = weights s @ [(t, 0)] \<and> valid_tickers s3 = valid_tickers s @ [t]"
      using nin nv by (simp add: s3_def s2_def add_ticker_def Let_def keys_def update_fresh t_def)
    then show ?thesis
      by (simp add: s'_def normalize_weights_def Let_def t_def)
  qed
  have n: "normalized (weights s')"
    using c3 by (simp add: s'_def normalize_weights_normalized registry_consistent_def)
  have only: "weights s' = [(''AAPL'', 100)]" if "keys (weights s') = [''AAPL'']"
    using single_key_normalized [OF n that] .
  show ?thesis
    using r holds mem fresh only by blast
qed

theorem C6_commit_witness:
  "enable_widget slot0_enabled 0 = Some True \<and> registry_consistent slot0_enabled
   \<and> ''AAPL'' \<notin> set (keys (weights slot0_enabled))
   \<and> (\<exists>s'. setSlotText 0 '' aapl '' slot0_enabled = Inr ([], s')
           \<and> slot_holds s' 0 ''AAPL'' \<and> weights s' = [(''AAPL'', 100)])"
proof -
  have h: "enable_widget slot0_enabled 0 = Some True" "registry_consistent slot0_enabled"
    by (simp_all add: slot0_enabled_def initial_state_def registry_consistent_def keys_def)
  have f: "weights slot0_enabled = []" "valid_tickers slot0_enabled = []"
    by (simp_all add: slot0_enabled_def initial_state_def)
  from C6_commit [OF h] obtain s' where
    r: "setSlotText 0 '' aapl '' slot0_enabled = Inr ([], s')"
    and sh: "slot_holds s' 0 ''AAPL''"
    and w: "''AAPL'' \<notin> set (keys (weights slot0_enabled)) \<longrightarrow>
         weights s' = weights (normalize_weights (slot0_enabled\<lparr>weights := weights slot0_enabled @ [(''AAPL'', 0)],
                                         valid_tickers := valid_tickers slot0_enabled @ [''AAPL'']\<rparr>))"
    by blast
  have nin: "''AAPL'' \<notin> set (keys (weights slot0_enabled))" by (simp add: f keys_def)
  with w have "weights s' = [(''AAPL'', 100)]"
    by (simp add: f normalize_weights_def Let_def total_weight_def dict_comprehension_def)
  with r sh h nin show ?thesis by blast
qed

section \<open>Editing a weight and adding a ticker\<close>

text \<open>
  Claim C7, as amended (a weight edit for a ticker that is no key). For a ticker that
  is no key of the weights, \<open>update_weight_from_text\<close> returns normally in every case:
  when the text is a number it appends an entry for the ticker with the number clamped
  to the range 0 to 100 and leaves the other entries as they are; when reading the
  number raised, the state is unchanged.
\<close>

theorem C7_unknown_symbol:
  assumes "ticker \<notin> set (keys (weights_v1 s))"
  shows "update_weight_from_text r ticker s =
           (case r of
              Parsed v \<Rightarrow> s\<lparr>weights_v1 := weights_v1 s @ [(ticker, max 0 (min 100 v))]\<rparr>
            | Raised \<Rightarrow> s)"
  using assms
  by (cases r) (auto simp: update_weight_from_text_def Let_def keys_def update_fresh max_def min_def)

theorem C7_unknown_symbol_witness:
  "''MSFT'' \<notin> set (keys (weights_v1 aapl_only_v1))
   \<and> weights_v1 (update_weight_from_text (Parsed 150) ''MSFT'' aapl_only_v1)
       = [(''AAPL'', 100), (''MSFT'', 100)]
   \<and> update_weight_from_text Raised ''MSFT'' aapl_only_v1 = aapl_only_v1"
proof -
  have h: "''MSFT'' \<notin> set (keys (weights_v1 aapl_only_v1))"
    by (simp add: aapl_only_v1_def keys_def)
  show ?thesis
    using h C7_unknown_symbol [OF h, of "Parsed 150"] C7_unknown_symbol [OF h, of Raised]
    by (simp add: aapl_only_v1_def)
qed

text \<open>Claim C7 as stated fails: with the weights AAPL: 100 and the number 50 for MSFT,
  the call creates the entry MSFT: 50.\<close>

theorem C7_entry_created:
  "''MSFT'' \<notin> set (keys (weights_v1 aapl_only_v1))
   \<and> weights_v1 (update_weight_from_text (Parsed 50) ''MSFT'' aapl_only_v1)
       = [(''AAPL'', 100), (''MSFT'', 50)]"
  by (simp add: v1_defs aapl_only_v1_def keys_def)

text \<open>
  Claim C8, as amended (no unnecessary reset, in the handler of \<^verbatim>\<open>app_v3.py\<close>).
  With row \<open>i\<close> enabled, a text whose normal form matches the pattern and is no key of
  the weights, and weights whose total is not zero: \<open>setSlotText\<close> shows no message,
  keeps every existing entry in place with its weight multiplied by 100 / total, and
  appends the new ticker with weight 0. When the total was 100 the existing weights are
  unchanged.
\<close>

theorem C8_proportions_kept:
  assumes "enable_widget s i = Some True"
    and "validate_ticker (upper (strip raw))"
    and "upper (strip raw) \<notin> set (keys (weights s))"
    and "total_weight (weights s) \<noteq> 0"
  shows "\<exists>s'. setSlotText i raw s = Inr ([], s')
           \<and> weights s' = rescale (total_weight (weights s)) (weights s) @ [(upper (strip raw), 0)]
           \<and> (total_weight (weights s) = 100 \<longrightarrow> weights s' = weights s @ [(upper (strip raw), 0)])"
proof -
  define t where "t = upper (strip raw)"
  define s0 where "s0 = s\<lparr>ticker_widget := (ticker_widget s)(i \<mapsto> raw)\<rparr>"
  define s1 where "s1 = (if t \<noteq> stored_value s i then clear_ticker t s0 else s0)"
  define s3 where "s3 = (add_ticker t s1)\<lparr>ticker_data := (ticker_data (add_ticker t s1))(i \<mapsto>
                  \<lparr>enabled = True, ticker_value = t, valid = True\<rparr>)\<rparr>"
  have ne: "t \<noteq> []" using assms(2) by (auto simp: t_def validate_ticker_def)
  have r: "setSlotText i raw s = Inr ([], normalize_weights s3)"
    using assms(2) ne
    by (simp add: setSlotText_Inr [OF assms(1)] Let_def s3_def s1_def s0_def t_def)
  have w0: "weights s0 = weights s" by (simp add: s0_def)
  have w1: "weights s1 = weights s"
    using assms(3) by (simp add: s1_def clear_ticker_absent w0 t_def)
  have w3: "weights s3 = weights s @ [(t, 0)]"
    using assms(3) by (simp add: s3_def add_ticker_weights_fresh w1 t_def)
  have tot: "total_weight (weights s3) = total_weight (weights s)"
    by (simp add: w3 total_weight_append) (simp add: total_weight_def)
  have "weights (normalize_weights s3) = rescale (total_weight (weights s)) (weights s) @ [(t, 0)]"
    using assms(4) by (simp add: weights_normalize_nonzero tot) (simp add: w3 rescale_def)
  then show ?thesis
    using r by (auto simp: t_def rescale_100)
qed

theorem C8_proportions_kept_witness:
  "enable_widget sixty_forty_open 2 = Some True \<and> stored_value sixty_forty_open 2 = []
   \<and> validate_ticker (upper (strip ''goog''))
   \<and> upper (strip ''goog'') \<notin> set (keys (weights sixty_forty_open))
   \<and> total_weight (weights sixty_forty_open) = 100
   \<and> (\<exists>s'. setSlotText 2 ''goog'' sixty_forty_open = Inr ([], s')
          \<and> weights s' = [(''AAPL'', 60), (''MSFT'', 40), (''GOOG'', 0)])"
proof -
  have u: "upper (strip ''goog'') = ''GOOG''" by (simp add: str_defs)
  have f: "weights sixty_forty_open = [(''AAPL'', 60), (''MSFT'', 40)]"
    by (simp add: sixty_forty_open_def sixty_forty_def)
  have e: "stored_value sixty_forty_open 2 = []"
    by (simp add: sixty_forty_open_def stored_value_def)
  have h: "enable_widget sixty_forty_open 2 = Some True" "validate_ticker (upper (strip ''goog''))"
    "upper (strip ''goog'') \<notin> set (keys (weights sixty_forty_open))"
    "total_weight (weights sixty_forty_open) \<noteq> 0"
    by (simp_all add: u f keys_def total_weight_def) (simp_all add: sixty_forty_open_def str_defs)
  have t: "total_weight (weights sixty_forty_open) = 100" by (simp add: f total_weight_def)
  from C8_proportions_kept [OF h] t obtain s' where
    "setSlotText 2 ''goog'' sixty_forty_open = Inr ([], s')"
    "weights s' = weights sixty_forty_open @ [(upper (strip ''goog''), 0)]"
    by blast
  then have "\<exists>s'. setSlotText 2 ''goog'' sixty_forty_open = Inr ([], s')
          \<and> weights s' = [(''AAPL'', 60), (''MSFT'', 40), (''GOOG'', 0)]"
    by (simp add: u f)
  with h e t show ?thesis by blast
qed

text \<open>Claim C8 as stated fails in \<^verbatim>\<open>app.py\<close>: with AAPL: 60 and MSFT: 40, a run in
  which row 2 newly holds GOOG resets all three weights to 100 / 3.\<close>

theorem C8_app_resets_weights:
  "script_run (row_widgets [(True, ''AAPL''), (True, ''MSFT''), (True, ''goog'')]) sixty_forty_v1
     = Inr ([], thirds_v1)
   \<and> weights_v1 sixty_forty_v1 = [(''AAPL'', 60), (''MSFT'', 40)]
   \<and> weights_v1 thirds_v1 = [(''AAPL'', 100 / 3), (''MSFT'', 100 / 3), (''GOOG'', 100 / 3)]"
  by (simp add: v1_defs row_widgets_def sixty_forty_v1_def thirds_v1_def str_defs)

section \<open>Renormalisation\<close>

text \<open>
  Claim C4 (equal split on a zero total). In a state whose valid-ticker list is the key
  list of the weights, as it is in every state in which the handlers call
  \<open>normalize_weights\<close> (lemmas \<open>handle_ticker_change_normalizes_consistent\<close> and
  \<open>run_invariant\<close>), renormalising a non-empty weight table whose weights sum to 0
  gives every entry the weight 100 / n, n the number of entries, and the new weights
  sum to 100.
\<close>

theorem C4_equal_split:
  assumes "registry_consistent s" and "weights s \<noteq> []" and "total_weight (weights s) = 0"
  shows "weights (normalize_weights s) =
           map (\<lambda>(t, w). (t, 100 / real (length (weights s)))) (weights s)
         \<and> total_weight (weights (normalize_weights s)) = 100"
proof -
  have k: "keys (weights s) = valid_tickers s" and d: "distinct (valid_tickers s)"
    using assms(1) by (simp_all add: registry_consistent_def)
  have len: "length (valid_tickers s) = length (weights s)"
    using k by (metis keys_def length_map)
  have ne: "valid_tickers s \<noteq> []"
    using assms(2) len by auto
  have w: "weights (normalize_weights s) =
      map (\<lambda>t. (t, 100 / real (length (weights s)))) (valid_tickers s)"
    using assms(3) ne d by (simp add: weights_normalize_zero dict_comprehension_distinct len)
  have "normalized (weights (normalize_weights s))"
    using d by (rule normalize_weights_normalized)
  moreover have "weights (normalize_weights s) \<noteq> []"
    using w ne by simp
  ultimately have "total_weight (weights (normalize_weights s)) = 100"
    by (simp add: normalized_def)
  with w map_const_eq [OF k] show ?thesis by simp
qed

theorem C4_equal_split_witness:
  "registry_consistent zero_abc \<and> weights zero_abc \<noteq> [] \<and> total_weight (weights zero_abc) = 0
   \<and> weights (normalize_weights zero_abc) = [(''A'', 100 / 3), (''B'', 100 / 3), (''C'', 100 / 3)]
   \<and> total_weight (weights (normalize_weights zero_abc)) = 100"
proof -
  have h: "registry_consistent zero_abc" "weights zero_abc \<noteq> []" "total_weight (weights zero_abc) = 0"
    by (simp_all add: registry_consistent_def zero_abc_def keys_def total_weight_def)
  have w: "weights zero_abc = [(''A'', 0), (''B'', 0), (''C'', 0)]"
    by (simp add: zero_abc_def)
  show ?thesis
    using h C4_equal_split [OF h] by (simp add: w total_weight_def)
qed

text \<open>
  Claim C9 (idempotence of renormalisation). With a valid-ticker list free of duplicates
  (the handlers append a ticker only when it is not yet listed), renormalising twice gives
  the state that renormalising once gives, and a state whose weights already sum to 100
  is a fixed point. Weights are real numbers here, so both equalities are exact.
\<close>

theorem C9_idempotent:
  assumes "distinct (valid_tickers s)"
  shows "normalize_weights (normalize_weights s) = normalize_weights s
         \<and> (total_weight (weights s) = 100 \<longrightarrow> normalize_weights s = s)"
proof -
  let ?s' = "normalize_weights s"
  have n: "normalized (weights ?s')" using assms by (rule normalize_weights_normalized)
  have "normalize_weights ?s' = ?s'"
  proof (cases "total_weight (weights ?s') = 100")
    case True then show ?thesis by (rule normalize_weights_fixed)
  next
    case False
    with n have e: "weights ?s' = []" by (simp add: normalized_def)
    have z: "total_weight (weights s) = 0"
    proof (rule ccontr)
      assume nz: "total_weight (weights s) \<noteq> 0"
      then have "weights s = []" using e by (simp add: weights_normalize_nonzero rescale_def)
      with nz show False by (simp add: total_weight_def)
    qed
    then have "valid_tickers s = []"
      using e by (simp add: weights_normalize_zero dict_comprehension_Nil_iff split: if_splits)
    with z show ?thesis
      by (simp add: normalize_weights_def Let_def dict_comprehension_def total_weight_def)
  qed
  then show ?thesis by (simp add: normalize_weights_fixed)
qed

theorem C9_idempotent_witness:
  "distinct (valid_tickers stale_state)
   \<and> weights (normalize_weights stale_state) = [(''AAPL'', 60), (''MSFT'', 40)]
   \<and> normalize_weights (normalize_weights stale_state) = normalize_weights stale_state
   \<and> distinct (valid_tickers sixty_forty)
   \<and> total_weight (weights sixty_forty) = 100
   \<and> normalize_weights sixty_forty = sixty_forty"
proof -
  have d1: "distinct (valid_tickers stale_state)" by (simp add: stale_state_def)
  have d2: "distinct (valid_tickers sixty_forty)" by (simp add: sixty_forty_def)
  have t: "total_weight (weights sixty_forty) = 100"
    by (simp add: sixty_forty_def total_weight_def)
  have t1: "total_weight (weights stale_state) = 50"
    by (simp add: stale_state_def total_weight_def)
  have w: "weights (normalize_weights stale_state) = [(''AAPL'', 60), (''MSFT'', 40)]"
    by (simp add: weights_normalize_nonzero t1) (simp add: stale_state_def rescale_def)
  show ?thesis
    using d1 d2 t w C9_idempotent [OF d1] C9_idempotent [OF d2] by blast
qed

text \<open>
  Claim C10 (the two branches treat the key set differently). For every argument of
  \<open>normalize_weights\<close>: when the total is not zero the keys stay exactly as they are,
  entries for tickers missing from the valid-ticker list included, and every weight is
  rescaled; when the total is zero the keys of the result are exactly the tickers of the
  valid-ticker list, each once, so any other entry is dropped.
\<close>

theorem C10_key_sets:
  "(total_weight (weights s) \<noteq> 0 \<longrightarrow>
      keys (weights (normalize_weights s)) = keys (weights s)
      \<and> weights (normalize_weights s) = rescale (total_weight (weights s)) (weights s))
   \<and> (total_weight (weights s) = 0 \<longrightarrow>
      set (keys (weights (normalize_weights s))) = set (valid_tickers s)
      \<and> distinct (keys (weights (normalize_weights s))))"
  by (simp add: weights_normalize_nonzero weights_normalize_zero keys_rescale
      set_keys_dict_comprehension distinct_keys_dict_comprehension)

theorem C10_key_sets_witness:
  "total_weight (weights stale_state) \<noteq> 0
   \<and> keys (weights (normalize_weights stale_state)) = [''AAPL'', ''MSFT'']
   \<and> weights (normalize_weights stale_state) = [(''AAPL'', 60), (''MSFT'', 40)]
   \<and> total_weight (weights zero_state) = 0
   \<and> set (keys (weights (normalize_weights zero_state))) = {''MSFT''}"
proof -
  have w: "weights stale_state = [(''AAPL'', 30), (''MSFT'', 20)]"
    by (simp add: stale_state_def)
  have t: "total_weight (weights stale_state) = 50"
    by (simp add: w total_weight_def)
  have nz: "total_weight (weights stale_state) \<noteq> 0"
    by (simp add: t)
  have "keys (weights (normalize_weights stale_state)) = keys (weights stale_state)
        \<and> weights (normalize_weights stale_state)
            = rescale (total_weight (weights stale_state)) (weights stale_state)"
    using C10_key_sets [of stale_state] nz by blast
  then have r1: "keys (weights (normalize_weights stale_state)) = [''AAPL'', ''MSFT'']"
    and r2: "weights (normalize_weights stale_state) = [(''AAPL'', 60), (''MSFT'', 40)]"
    by (simp_all add: t) (simp_all add: w keys_def rescale_def)
  have z: "total_weight (weights zero_state) = 0"
    by (simp add: zero_state_def total_weight_def)
  have "set (keys (weights (normalize_weights zero_state))) = set (valid_tickers zero_state)"
    using C10_key_sets [of zero_state] z by blast
  then have r3: "set (keys (weights (normalize_weights zero_state))) = {''MSFT''}"
    by (simp add: zero_state_def)
  show ?thesis
    using nz r1 r2 z r3 by blast
qed

end
